theory Spec2Isabelle
  imports Main
begin

section \<open>Python values and exceptions\<close>

text \<open>
  The functions of \<^verbatim>\<open>monitor/lib/utils.py\<close> are modelled as HOL functions. A raised
  exception is the left summand of the result; state that a method mutates is passed in
  and returned. Only the exception classes that the module raises, catches or lets through
  are listed.
\<close>

datatype exn =
    ExecutorError string
  | OSError int
  | KeyboardInterrupt
  | AttributeError string
  | TypeError string
  | ValueError string
  | KeyError string
  | IndexError string
  | OverflowError string
  | ArgumentError string

text \<open>\<^verbatim>\<open>KeyboardInterrupt\<close> derives from \<^verbatim>\<open>BaseException\<close> only; every other class
  above derives from \<^verbatim>\<open>Exception\<close>.\<close>

fun is_Exception :: "exn \<Rightarrow> bool" where
  "is_Exception KeyboardInterrupt = False"
| "is_Exception _ = True"

text \<open>The objects a caller may pass as a callback or as the value of a keyword option:
  only functions are callable.\<close>

datatype pyobj = PyNone | PyInt int | PyStr string | PyStrList "string list" | PyFunction nat

fun callable :: "pyobj \<Rightarrow> bool" where
  "callable (PyFunction _) = True"
| "callable _ = False"

type_synonym kwargs = "(string \<times> pyobj) list"

text \<open>Python's \<^verbatim>\<open>d[k] = v\<close> on an insertion-ordered dictionary, and the dictionary left
  by \<^verbatim>\<open>d.pop(k, default)\<close>.\<close>

fun dict_set :: "('k \<times> 'v) list \<Rightarrow> 'k \<Rightarrow> 'v \<Rightarrow> ('k \<times> 'v) list" where
  "dict_set [] k v = [(k, v)]"
| "dict_set ((k', v') # d) k v =
     (if k' = k then (k, v) # d else (k', v') # dict_set d k v)"

definition dict_pop :: "('k \<times> 'v) list \<Rightarrow> 'k \<Rightarrow> ('k \<times> 'v) list" where
  "dict_pop d k = filter (\<lambda>(k', v). k' \<noteq> k) d"

section \<open>The sub-command registry (class Callbacks)\<close>

subsection \<open>The argument parser objects handed in by the host\<close>

text \<open>
  A sub-parser carries the keyword options its class was called with (\<^verbatim>\<open>prog\<close> among
  them) and the options added to it afterwards. The sub-parsers action of the host
  (\<^verbatim>\<open>argparse\<close>'s, as of Python 3.11) holds the prefix of the program name, the help
  entries of its sub-parsers, the parser objects made so far, and the map from a name or
  an alias to the position of its parser object: an alias shares the object of its name.
  The parser class is the host's, so whether its constructor accepts a set of keyword
  options is a field of the object.
\<close>

record parser =
  options :: kwargs
  arguments :: "(string \<times> string) list"

record subparsers =
  prog_prefix :: string
  choices_actions :: "(string \<times> string list \<times> pyobj) list"
  name_parser_map :: "(string \<times> nat) list"
  parser_objects :: "parser list"
  parser_class :: "kwargs \<Rightarrow> exn option"

text \<open>\<^verbatim>\<open>for alias in aliases\<close>, where \<^verbatim>\<open>aliases\<close> is the option's value or the empty
  tuple: a list gives its strings, a string its characters, anything else is not
  iterable.\<close>

fun iterate :: "pyobj option \<Rightarrow> exn + string list" where
  "iterate None = Inr []"
| "iterate (Some (PyStrList xs)) = Inr xs"
| "iterate (Some (PyStr s)) = Inr (map (\<lambda>c. [c]) s)"
| "iterate (Some _) = Inl (TypeError ''object is not iterable'')"

text \<open>
  \<^verbatim>\<open>parsers.add_parser(name, **kwargs)\<close>, step by step as \<^verbatim>\<open>argparse\<close> does it: set
  \<^verbatim>\<open>prog\<close> unless given; take the aliases out; refuse a name, then an alias, that the map
  holds; record the help entry; call the parser class; enter the new object under the
  name and under every alias. The action is returned as the call leaves it: a parser
  class that refuses the options raises after the help entry was recorded.
\<close>

definition add_parser ::
  "subparsers \<Rightarrow> string \<Rightarrow> kwargs \<Rightarrow> (exn + nat \<times> parser) \<times> subparsers" where
  "add_parser sp name kw =
     (let kw1 = (if (case map_of kw ''prog'' of None \<Rightarrow> True | Some v \<Rightarrow> v = PyNone)
                 then dict_set kw ''prog'' (PyStr (prog_prefix sp @ '' '' @ name))
                 else kw);
          aliases = map_of kw1 ''aliases'';
          kw2 = dict_pop kw1 ''aliases''
      in if name \<in> fst ` set (name_parser_map sp)
         then (Inl (ArgumentError (''conflicting subparser: '' @ name)), sp)
         else
           (case iterate aliases of
              Inl e \<Rightarrow> (Inl e, sp)
            | Inr als \<Rightarrow>
                (case find (\<lambda>a. a \<in> fst ` set (name_parser_map sp)) als of
                   Some a \<Rightarrow> (Inl (ArgumentError (''conflicting subparser alias: '' @ a)), sp)
                 | None \<Rightarrow>
                     let sp1 = (case map_of kw2 ''help'' of
                                  None \<Rightarrow> sp
                                | Some h \<Rightarrow>
                                    sp\<lparr>choices_actions := choices_actions sp @ [(name, als, h)]\<rparr>);
                         kw3 = dict_pop kw2 ''help''
                     in (case parser_class sp kw3 of
                           Some e \<Rightarrow> (Inl e, sp1)
                         | None \<Rightarrow>
                             (let p = \<lparr>options = kw3, arguments = []\<rparr>;
                                  i = length (parser_objects sp1)
                              in (Inr (i, p),
                                  sp1\<lparr>parser_objects := parser_objects sp1 @ [p],
                                      name_parser_map :=
                                        foldl (\<lambda>m k. dict_set m k i) (name_parser_map sp1)
                                          (name # als)\<rparr>))))))"

text \<open>\<^verbatim>\<open>parser.add_argument(flag, help=...)\<close>.\<close>

definition add_argument :: "parser \<Rightarrow> string \<Rightarrow> string \<Rightarrow> parser" where
  "add_argument p flag help_text = p\<lparr>arguments := arguments p @ [(flag, help_text)]\<rparr>"

subsection \<open>The registry\<close>

text \<open>The three attributes set by \<^verbatim>\<open>__init__\<close>; \<open>parsers\<close> is \<^verbatim>\<open>None\<close> until the registry
  is called with the host's sub-parsers action.\<close>

record Callbacks =
  command :: string
  callbacks :: "(string \<times> pyobj) list"
  parsers :: "subparsers option"

definition init :: "string \<Rightarrow> Callbacks" where
  "init cmd = \<lparr>command = cmd, callbacks = [], parsers = None\<rparr>"

text \<open>\<^verbatim>\<open>__call__(parsers, callback)\<close>: store the sub-parsers action, then run the user's
  callback on the registry.\<close>

definition call ::
  "Callbacks \<Rightarrow> subparsers \<Rightarrow> (Callbacks \<Rightarrow> (exn + unit) \<times> Callbacks)
     \<Rightarrow> (exn + unit) \<times> Callbacks" where
  "call self sp callback = callback (self\<lparr>parsers := Some sp\<rparr>)"

text \<open>The loop \<^verbatim>\<open>for [k, _] in self.callbacks.items(): if name == k: raise ...\<close>;
  \<open>True\<close> when it raises.\<close>

fun already_registered :: "string \<Rightarrow> (string \<times> pyobj) list \<Rightarrow> bool" where
  "already_registered name [] = False"
| "already_registered name ((k, _) # items) =
     (if name = k then True else already_registered name items)"

text \<open>\<^verbatim>\<open>self.parsers.add_parser(name, **kwargs)\<close>, where \<^verbatim>\<open>self.parsers\<close> may still be
  \<^verbatim>\<open>None\<close>.\<close>

definition parsers_add_parser ::
  "subparsers option \<Rightarrow> string \<Rightarrow> kwargs \<Rightarrow> (exn + nat \<times> parser) \<times> subparsers option" where
  "parsers_add_parser ps name kw =
     (case ps of
        None \<Rightarrow> (Inl (AttributeError ''NoneType object has no attribute add_parser''), None)
      | Some sp \<Rightarrow> (case add_parser sp name kw of (r, sp1) \<Rightarrow> (r, Some sp1)))"

definition quoted :: "string \<Rightarrow> string" where
  "quoted s = [CHR 0x27] @ s @ [CHR 0x27]"

text \<open>\<^verbatim>\<open>Register(self, name, callback, **kwargs)\<close>. The sub-parser returned is the object
  the host's action holds, so the option added to it shows there too.\<close>

definition Register ::
  "Callbacks \<Rightarrow> string \<Rightarrow> pyobj \<Rightarrow> kwargs \<Rightarrow> (exn + parser) \<times> Callbacks" where
  "Register self name callback kw =
     (if \<not> callable callback then
        (Inl (ExecutorError ''Callback is not callable''), self)
      else if name = command self then
        (Inl (ExecutorError (''Cannot register a secondary '' @ quoted name @ '' command'')),
         self)
      else if already_registered name (callbacks self) then
        (Inl (ExecutorError (''Command '' @ quoted name @ '' already registered'')), self)
      else
        let self1 = self\<lparr>callbacks := dict_set (callbacks self) name callback\<rparr>
        in case parsers_add_parser (parsers self1) name kw of
             (Inl e, ps1) \<Rightarrow> (Inl e, self1\<lparr>parsers := ps1\<rparr>)
           | (Inr (i, p), ps1) \<Rightarrow>
               let p1 = add_argument p ''--config'' ''Path to the config file''
               in (Inr p1,
                   self1\<lparr>parsers :=
                     map_option (\<lambda>sp. sp\<lparr>parser_objects := (parser_objects sp)[i := p1]\<rparr>)
                       ps1\<rparr>))"

text \<open>Whether the host's action holds a sub-parser under a name.\<close>

definition has_sub_parser :: "subparsers option \<Rightarrow> string \<Rightarrow> bool" where
  "has_sub_parser ps name =
     (case ps of None \<Rightarrow> False | Some sp \<Rightarrow> name \<in> fst ` set (name_parser_map sp))"

section \<open>The process runner (Command)\<close>

subsection \<open>The child process as the caller sees it\<close>

text \<open>
  \<^verbatim>\<open>subprocess.Popen\<close> takes, for each stream of the child, one of its three constants,
  a descriptor, or a file object; a \<^verbatim>\<open>str\<close> is none of these. \<^verbatim>\<open>os.devnull\<close> is the
  path of the null device, a \<^verbatim>\<open>str\<close>.
\<close>

type_synonym bytes = string

datatype redirect = PIPE | STDOUT | DEVNULL | Descriptor int | Str string

definition os_devnull :: string where
  "os_devnull = ''/dev/null''"

text \<open>
  A \<^verbatim>\<open>Popen\<close> object. What the child does is outside the program, so the object carries
  what the caller will see of it: the outcome of each status probe that \<^verbatim>\<open>poll()\<close> makes
  (\<open>Inr None\<close> while the child runs, \<open>Inr (Some rc)\<close> once it has exited, \<open>Inl\<close> when the
  call is interrupted; past the end of the list the child is still running) and of each
  \<^verbatim>\<open>stdout.readline()\<close> (a line, the empty \<^verbatim>\<open>b''\<close> at end of file, or an
  interruption; past the end of the list the stream is at end of file).
\<close>

record process =
  returncode :: "int option"
  status_probes :: "(exn + int option) list"
  stdout_reads :: "(exn + bytes) list"

text \<open>The operating system's part of \<^verbatim>\<open>Popen(command, cwd=..., stdout=..., stderr=...)\<close>:
  it starts the child or raises.\<close>

type_synonym spawner =
  "string list \<Rightarrow> string option \<Rightarrow> redirect \<Rightarrow> redirect \<Rightarrow> exn + process"

text \<open>\<^verbatim>\<open>Popen\<close> resolves its stream arguments before anything else; an argument that
  is none of the accepted kinds is taken for a file object and asked for its
  \<^verbatim>\<open>fileno()\<close>. Then it takes the first element of the command vector for the program
  (\<^verbatim>\<open>IndexError\<close> when there is none) and refuses a zero byte in an argument or in the
  working directory (\<^verbatim>\<open>ValueError\<close>); only then is the operating system asked for a
  child.\<close>

fun get_handle :: "redirect \<Rightarrow> exn option" where
  "get_handle (Str s) = Some (AttributeError ''str object has no attribute fileno'')"
| "get_handle _ = None"

definition Popen ::
  "spawner \<Rightarrow> string list \<Rightarrow> string option \<Rightarrow> redirect \<Rightarrow> redirect \<Rightarrow> exn + process" where
  "Popen os args cwd out err =
     (case get_handle out of
        Some e \<Rightarrow> Inl e
      | None \<Rightarrow>
          (case get_handle err of
             Some e \<Rightarrow> Inl e
           | None \<Rightarrow>
               if args = [] then Inl (IndexError ''list index out of range'')
               else if CHR 0x00 \<in> set (concat args)
                     \<or> (case cwd of None \<Rightarrow> False | Some d \<Rightarrow> CHR 0x00 \<in> set d)
               then Inl (ValueError ''embedded null byte'')
               else os args cwd out err))"

text \<open>\<^verbatim>\<open>process.poll()\<close>: the return code once known is kept; otherwise one probe.\<close>

definition poll :: "process \<Rightarrow> (exn + int option) \<times> process" where
  "poll p =
     (case returncode p of
        Some rc \<Rightarrow> (Inr (Some rc), p)
      | None \<Rightarrow>
          (case status_probes p of
             [] \<Rightarrow> (Inr None, p)
           | r # rs \<Rightarrow>
               (r, p\<lparr>status_probes := rs,
                      returncode := (case r of Inr (Some rc) \<Rightarrow> Some rc | _ \<Rightarrow> None)\<rparr>)))"

subsection \<open>Trimming a line\<close>

text \<open>\<^verbatim>\<open>bytes.strip()\<close> removes leading and trailing ASCII whitespace.\<close>

definition is_space :: "char \<Rightarrow> bool" where
  "is_space c \<longleftrightarrow> c \<in> set [CHR 0x20, CHR 0x09, CHR 0x0A, CHR 0x0B, CHR 0x0C, CHR 0x0D]"

definition strip :: "bytes \<Rightarrow> bytes" where
  "strip s = rev (dropWhile is_space (rev (dropWhile is_space s)))"

subsection \<open>The two loops and the function\<close>

text \<open>
  \<^verbatim>\<open>for line in iter(process.stdout.readline, b''): ...\<close> on the reads still to come:
  the exception that ended the loop if any, the reads left, and the output.
\<close>

fun read_lines ::
  "(exn + bytes) list \<Rightarrow> bytes list \<Rightarrow> exn option \<times> (exn + bytes) list \<times> bytes list" where
  "read_lines [] output = (None, [], output)"
| "read_lines (Inl e # rest) output = (Some e, rest, output)"
| "read_lines (Inr line # rest) output =
     (if line = [] then (None, rest, output)
      else read_lines rest
             (if length (strip line) > 0 then output @ [strip line] else output))"

text \<open>
  \<^verbatim>\<open>while True: if process.poll() is not None: break; for line in ...\<close>. The loop runs
  for as long as the child does, so it is bounded by \<open>fuel\<close> rounds: \<open>None\<close> when the
  rounds are used up, otherwise the exception that left the loop (if any), the process
  object and the output.
\<close>

fun wait_loop ::
  "nat \<Rightarrow> process \<Rightarrow> bytes list \<Rightarrow> (exn option \<times> process \<times> bytes list) option" where
  "wait_loop 0 p output = None"
| "wait_loop (Suc fuel) p output =
     (case poll p of
        (Inl e, p1) \<Rightarrow> Some (Some e, p1, output)
      | (Inr (Some rc), p1) \<Rightarrow> Some (None, p1, output)
      | (Inr None, p1) \<Rightarrow>
          (case read_lines (stdout_reads p1) output of
             (Some e, rest, output1) \<Rightarrow> Some (Some e, p1\<lparr>stdout_reads := rest\<rparr>, output1)
           | (None, rest, output1) \<Rightarrow> wait_loop fuel (p1\<lparr>stdout_reads := rest\<rparr>) output1))"

text \<open>The last line, \<^verbatim>\<open>return process.poll(), output\<close>, where \<^verbatim>\<open>process\<close> is still
  \<^verbatim>\<open>None\<close> when \<^verbatim>\<open>Popen\<close> did not return.\<close>

definition return_poll ::
  "process option \<Rightarrow> bytes list \<Rightarrow> exn + (int option \<times> bytes list)" where
  "return_poll process output =
     (case process of
        None \<Rightarrow> Inl (AttributeError ''NoneType object has no attribute poll'')
      | Some p \<Rightarrow>
          (case poll p of
             (Inl e, _) \<Rightarrow> Inl e
           | (Inr rc, _) \<Rightarrow> Inr (rc, output)))"

text \<open>The two handlers: \<^verbatim>\<open>except KeyboardInterrupt: pass\<close> goes on to the return
  statement, \<^verbatim>\<open>except OSError: raise\<close> and every other exception leave the function.\<close>

definition handle ::
  "exn \<Rightarrow> process option \<Rightarrow> bytes list \<Rightarrow> exn + (int option \<times> bytes list)" where
  "handle e process output =
     (if e = KeyboardInterrupt then return_poll process output else Inl e)"

definition stderr_argument :: "bool \<Rightarrow> redirect" where
  "stderr_argument stderr = (if stderr then STDOUT else Str os_devnull)"

text \<open>\<^verbatim>\<open>Command(command, stderr=True, cwd=None)\<close>, the command vector written \<open>argv\<close>
  here; \<open>None\<close> when the loop has not ended within \<open>fuel\<close> rounds.\<close>

definition Command ::
  "spawner \<Rightarrow> nat \<Rightarrow> string list \<Rightarrow> bool \<Rightarrow> string option
     \<Rightarrow> (exn + (int option \<times> bytes list)) option" where
  "Command os fuel argv stderr cwd =
     (case Popen os argv cwd PIPE (stderr_argument stderr) of
        Inl e \<Rightarrow> Some (handle e None [])
      | Inr p \<Rightarrow>
          (case wait_loop fuel p [] of
             None \<Rightarrow> None
           | Some (Some e, p1, output) \<Rightarrow> Some (handle e (Some p1) output)
           | Some (None, p1, output) \<Rightarrow> Some (return_poll (Some p1) output)))"

section \<open>The readiness waiter (Select)\<close>

subsection \<open>Clock, selector and logger\<close>

text \<open>
  Times are in microseconds, the resolution of \<^verbatim>\<open>datetime\<close>, counted from
  1970-01-01 00:00 on the clock's own time line; \<open>timeout\<close> is the call's number of
  seconds in microseconds. What the operating system answers is outside the program, so
  it is a parameter: the clock reading of each \<^verbatim>\<open>datetime.now()\<close>, the error (if any)
  of creating the selector, of registering a descriptor and of closing the selector, the
  outcome of each \<^verbatim>\<open>selector.select\<close>, and the text \<^verbatim>\<open>GetErrorMessage\<close> finds for an
  error number.
\<close>

datatype event = EVENT_READ | EVENT_WRITE

type_synonym ready = "(int \<times> event) list"

record host =
  now_at :: "nat \<Rightarrow> int"
  selector_error :: "exn option"
  register_error :: "int \<Rightarrow> event \<Rightarrow> exn option"
  select_at :: "nat \<Rightarrow> exn + ready"
  close_error :: "exn option"
  error_message :: "int \<Rightarrow> string"

datatype log_entry =
    Error_OSError int string
  | Error_selector_close exn
  | Debug_interval int

text \<open>
  What a call changes: how often the clock was read, the logger's lines, and the selector
  of the call: its registered descriptors, how often it was polled, and \<open>closed\<close>, which
  says that the call holds no open selector (it has closed the one it made, or has made
  none).
\<close>

record world =
  clock_reads :: nat
  fd_to_key :: "(int \<times> event) list"
  selects :: nat
  closed :: bool
  logged :: "log_entry list"

definition datetime_now :: "host \<Rightarrow> world \<Rightarrow> int \<times> world" where
  "datetime_now h w = (now_at h (clock_reads w), w\<lparr>clock_reads := Suc (clock_reads w)\<rparr>)"

text \<open>\<^verbatim>\<open>timedelta(seconds=timeout)\<close> holds at most 999999999 days either way, and
  \<^verbatim>\<open>start + timedelta\<close> must fall between \<^verbatim>\<open>datetime.min\<close> (year 1) and
  \<^verbatim>\<open>datetime.max\<close> (year 9999); both raise \<^verbatim>\<open>OverflowError\<close> otherwise.\<close>

definition timedelta :: "int \<Rightarrow> exn + int" where
  "timedelta us =
     (if - 86399999913600000000 \<le> us \<and> us \<le> 86399999999999999999 then Inr us
      else Inl (OverflowError ''days must have magnitude <= 999999999''))"

definition datetime_add :: "int \<Rightarrow> int \<Rightarrow> exn + int" where
  "datetime_add t delta =
     (if - 62135596800000000 \<le> t + delta \<and> t + delta \<le> 253402300799999999
      then Inr (t + delta)
      else Inl (OverflowError ''date value out of range''))"

text \<open>Before the call has made its selector it holds none.\<close>

definition no_selector :: "world \<Rightarrow> world" where
  "no_selector w = w\<lparr>fd_to_key := [], selects := 0, closed := True\<rparr>"

text \<open>\<^verbatim>\<open>selectors.DefaultSelector()\<close>: a new, empty, open selector, unless the operating
  system has no descriptor left for it.\<close>

definition DefaultSelector :: "host \<Rightarrow> world \<Rightarrow> exn + world" where
  "DefaultSelector h w =
     (case selector_error h of
        Some e \<Rightarrow> Inl e
      | None \<Rightarrow> Inr (w\<lparr>fd_to_key := [], selects := 0, closed := False\<rparr>))"

text \<open>What is registered: a descriptor, a file object with its \<^verbatim>\<open>fileno()\<close>, or an
  object that has none (a set, a tuple, \<^verbatim>\<open>None\<close>).\<close>

datatype fileobj = Fd int | File int | NoFileno

fun fileobj_to_fd :: "fileobj \<Rightarrow> exn + int" where
  "fileobj_to_fd NoFileno = Inl (ValueError ''Invalid file object'')"
| "fileobj_to_fd (Fd n) =
     (if n < 0 then Inl (ValueError ''Invalid file descriptor'') else Inr n)"
| "fileobj_to_fd (File n) =
     (if n < 0 then Inl (ValueError ''Invalid file descriptor'') else Inr n)"

text \<open>
  \<^verbatim>\<open>selector.register(fileobj, event)\<close>: the library refuses an object without a
  descriptor and a negative descriptor (\<^verbatim>\<open>ValueError\<close>), then a descriptor already
  registered (\<^verbatim>\<open>KeyError\<close>), then one that does not fit a C \<^verbatim>\<open>int\<close>
  (\<^verbatim>\<open>OverflowError\<close>), and only then asks the operating system; a descriptor that fails
  is not kept.
\<close>

definition selector_register ::
  "host \<Rightarrow> world \<Rightarrow> fileobj \<Rightarrow> event \<Rightarrow> exn option \<times> world" where
  "selector_register h w fileobj ev =
     (case fileobj_to_fd fileobj of
        Inl e \<Rightarrow> (Some e, w)
      | Inr fd \<Rightarrow>
          (if fd \<in> fst ` set (fd_to_key w) then (Some (KeyError ''already registered''), w)
           else if 2147483647 < fd
           then (Some (OverflowError ''Python int too large to convert to C int''), w)
           else (case register_error h fd ev of
                   Some e \<Rightarrow> (Some e, w)
                 | None \<Rightarrow> (None, w\<lparr>fd_to_key := fd_to_key w @ [(fd, ev)]\<rparr>))))"

text \<open>\<^verbatim>\<open>selector.select(timeout=0.1)\<close>.\<close>

definition selector_select :: "host \<Rightarrow> world \<Rightarrow> (exn + ready) \<times> world" where
  "selector_select h w = (select_at h (selects w), w\<lparr>selects := Suc (selects w)\<rparr>)"

text \<open>
  \<^verbatim>\<open>selector.close()\<close> gives up the selector's descriptor and then empties the
  registrations. An operating system error is raised once the descriptor is given up and
  before the registrations are emptied; an interrupt may come before anything was closed.
\<close>

definition selector_close :: "host \<Rightarrow> world \<Rightarrow> exn option \<times> world" where
  "selector_close h w =
     (case close_error h of
        None \<Rightarrow> (None, w\<lparr>closed := True, fd_to_key := []\<rparr>)
      | Some e \<Rightarrow> (Some e, if is_Exception e then w\<lparr>closed := True\<rparr> else w))"

definition GetErrorMessage :: "host \<Rightarrow> int \<Rightarrow> string" where
  "GetErrorMessage h err = error_message h err"

subsection \<open>The function\<close>

text \<open>\<^verbatim>\<open>if not isinstance(rds, list): rds = [rds]\<close>: an argument is a list of objects, or
  one object of any other kind, which is wrapped.\<close>

datatype descriptors = Single fileobj | Many "fileobj list"

fun as_list :: "descriptors \<Rightarrow> fileobj list" where
  "as_list (Single fileobj) = [fileobj]"
| "as_list (Many fileobjs) = fileobjs"

text \<open>\<^verbatim>\<open>for rd in rds: selector.register(rd, event)\<close>, left at the first exception.\<close>

fun register_all :: "host \<Rightarrow> event \<Rightarrow> fileobj list \<Rightarrow> world \<Rightarrow> exn option \<times> world" where
  "register_all h ev [] w = (None, w)"
| "register_all h ev (fileobj # fileobjs) w =
     (case selector_register h w fileobj ev of
        (Some e, w1) \<Rightarrow> (Some e, w1)
      | (None, w1) \<Rightarrow> register_all h ev fileobjs w1)"

text \<open>
  \<^verbatim>\<open>while datetime.now() < end: res = selector.select(timeout=0.1); if res: break\<close>.
  Nothing in the program makes the clock advance, so the loop is bounded by \<open>fuel\<close>
  polls: \<open>None\<close> when another poll is due and none is left. Otherwise the exception that
  left the loop, or the value of \<^verbatim>\<open>res\<close> after it.
\<close>

fun select_loop ::
  "nat \<Rightarrow> host \<Rightarrow> int \<Rightarrow> ready option \<Rightarrow> world \<Rightarrow> ((exn + ready option) \<times> world) option" where
  "select_loop 0 h deadline res w =
     (case datetime_now h w of
        (t, w1) \<Rightarrow> if t < deadline then None else Some (Inr res, w1))"
| "select_loop (Suc fuel) h deadline res w =
     (case datetime_now h w of
        (t, w1) \<Rightarrow>
          if t < deadline then
            (case selector_select h w1 of
               (Inl e, w2) \<Rightarrow> Some (Inl e, w2)
             | (Inr r, w2) \<Rightarrow>
                 if r \<noteq> [] then Some (Inr (Some r), w2)
                 else select_loop fuel h deadline (Some r) w2)
          else Some (Inr res, w1))"

text \<open>The body of the \<^verbatim>\<open>try\<close> statement, entered with \<^verbatim>\<open>res = None\<close>.\<close>

definition try_body ::
  "nat \<Rightarrow> host \<Rightarrow> fileobj list \<Rightarrow> fileobj list \<Rightarrow> int \<Rightarrow> world
     \<Rightarrow> ((exn + ready option) \<times> world) option" where
  "try_body fuel h rds wrts deadline w =
     (case register_all h EVENT_READ rds w of
        (Some e, w1) \<Rightarrow> Some (Inl e, w1)
      | (None, w1) \<Rightarrow>
          (case register_all h EVENT_WRITE wrts w1 of
             (Some e, w2) \<Rightarrow> Some (Inl e, w2)
           | (None, w2) \<Rightarrow> select_loop fuel h deadline None w2))"

text \<open>How the \<^verbatim>\<open>try\<close> statement is about to be left when its \<^verbatim>\<open>finally\<close> clause
  starts: by a \<^verbatim>\<open>return\<close>, by an exception no handler took, or off its end with \<^verbatim>\<open>res\<close>.\<close>

datatype pending = Return "ready option" | Raise exn | Completed "ready option"

text \<open>\<^verbatim>\<open>except os.error as e: (log); return None\<close> and
  \<^verbatim>\<open>except KeyboardInterrupt: return None\<close>.\<close>

definition except_clauses :: "host \<Rightarrow> bool \<Rightarrow> exn \<Rightarrow> world \<Rightarrow> pending \<times> world" where
  "except_clauses h logger e w =
     (case e of
        OSError errno \<Rightarrow>
          (Return None,
           if logger
           then w\<lparr>logged := logged w @ [Error_OSError errno (GetErrorMessage h errno)]\<rparr>
           else w)
      | KeyboardInterrupt \<Rightarrow> (Return None, w)
      | _ \<Rightarrow> (Raise e, w))"

text \<open>\<^verbatim>\<open>finally: try: selector.close() except Exception as e: (log)\<close>: the exception
  that leaves the clause, if any.\<close>

definition finally_clause :: "host \<Rightarrow> bool \<Rightarrow> world \<Rightarrow> exn option \<times> world" where
  "finally_clause h logger w =
     (case selector_close h w of
        (None, w1) \<Rightarrow> (None, w1)
      | (Some e, w1) \<Rightarrow>
          if is_Exception e
          then (None, if logger then w1\<lparr>logged := logged w1 @ [Error_selector_close e]\<rparr> else w1)
          else (Some e, w1))"

text \<open>The lines after the \<^verbatim>\<open>try\<close> statement: log the duration, \<^verbatim>\<open>return res\<close>.\<close>

definition return_res ::
  "host \<Rightarrow> bool \<Rightarrow> int \<Rightarrow> ready option \<Rightarrow> world \<Rightarrow> (exn + ready option) \<times> world" where
  "return_res h logger start res w =
     (if logger
      then (case datetime_now h w of
              (t, w1) \<Rightarrow> (Inr res, w1\<lparr>logged := logged w1 @ [Debug_interval (t - start)]\<rparr>))
      else (Inr res, w))"

text \<open>The \<^verbatim>\<open>try\<close> statement with its handlers and its \<^verbatim>\<open>finally\<close> clause, and the lines
  after it.\<close>

definition try_statement ::
  "host \<Rightarrow> nat \<Rightarrow> fileobj list \<Rightarrow> fileobj list \<Rightarrow> int \<Rightarrow> int \<Rightarrow> bool \<Rightarrow> world
     \<Rightarrow> ((exn + ready option) \<times> world) option" where
  "try_statement h fuel rds wrts start deadline logger w =
     (case try_body fuel h rds wrts deadline w of
        None \<Rightarrow> None
      | Some (r, w2) \<Rightarrow>
          (case (case r of
                   Inl e \<Rightarrow> except_clauses h logger e w2
                 | Inr res \<Rightarrow> (Completed res, w2)) of
             (leaving, w3) \<Rightarrow>
               (case finally_clause h logger w3 of
                  (Some e, w4) \<Rightarrow> Some (Inl e, w4)
                | (None, w4) \<Rightarrow>
                    (case leaving of
                       Return v \<Rightarrow> Some (Inr v, w4)
                     | Raise e \<Rightarrow> Some (Inl e, w4)
                     | Completed res \<Rightarrow> Some (return_res h logger start res w4)))))"

text \<open>
  \<^verbatim>\<open>Select(rds, wrts, timeout, logger=None)\<close>; \<open>logger\<close> says whether one was given.
  The result \<open>Inr None\<close> is Python's \<^verbatim>\<open>None\<close>, \<open>Inr (Some r)\<close> the list \<open>r\<close>. The three
  lines before the \<^verbatim>\<open>try\<close> statement read the clock, compute \<^verbatim>\<open>end\<close> and make the
  selector; an exception of theirs reaches the caller.
\<close>

definition Select ::
  "host \<Rightarrow> nat \<Rightarrow> descriptors \<Rightarrow> descriptors \<Rightarrow> int \<Rightarrow> bool \<Rightarrow> world
     \<Rightarrow> ((exn + ready option) \<times> world) option" where
  "Select h fuel rds wrts timeout logger w =
     (case datetime_now h (no_selector w) of
        (start, w1) \<Rightarrow>
          (case timedelta timeout of
             Inl e \<Rightarrow> Some (Inl e, w1)
           | Inr delta \<Rightarrow>
               (case datetime_add start delta of
                  Inl e \<Rightarrow> Some (Inl e, w1)
                | Inr deadline \<Rightarrow>
                    (case DefaultSelector h w1 of
                       Inl e \<Rightarrow> Some (Inl e, w1)
                     | Inr w2 \<Rightarrow>
                         try_statement h fuel (as_list rds) (as_list wrts) start deadline
                           logger w2))))"

section \<open>Hosts and children used in the examples\<close>

text \<open>A registry for the primary command \<^verbatim>\<open>run\<close>, called with an empty sub-parsers action
  whose parser class accepts every option.\<close>

definition run_registry :: Callbacks where
  "run_registry =
     \<lparr>command = ''run'', callbacks = [],
      parsers = Some \<lparr>prog_prefix = ''tool'', choices_actions = [], name_parser_map = [],
                      parser_objects = [], parser_class = (\<lambda>kw. None)\<rparr>\<rparr>"

text \<open>The same registry with a parser class that knows no option \<^verbatim>\<open>bogus\<close>.\<close>

definition strict_registry :: Callbacks where
  "strict_registry =
     \<lparr>command = ''run'', callbacks = [],
      parsers = Some \<lparr>prog_prefix = ''tool'', choices_actions = [], name_parser_map = [],
                      parser_objects = [],
                      parser_class =
                        (\<lambda>kw. if ''bogus'' \<in> fst ` set kw
                              then Some (TypeError ''unexpected keyword argument'')
                              else None)\<rparr>\<rparr>"

text \<open>The child \<^verbatim>\<open>echo hello\<close>: it writes one line and exits with 0. The caller's first
  \<open>k\<close> probes still find it running.\<close>

definition echo_hello :: "nat \<Rightarrow> process" where
  "echo_hello k =
     \<lparr>returncode = None,
      status_probes = replicate k (Inr None) @ [Inr (Some 0)],
      stdout_reads = [Inr (''hello'' @ [CHR 0x0A])]\<rparr>"

text \<open>An operating system on which only \<^verbatim>\<open>echo hello\<close> can be started
  (\<^verbatim>\<open>ENOENT\<close> is 2).\<close>

definition echo_os :: "nat \<Rightarrow> spawner" where
  "echo_os k argv cwd out err =
     (if argv = [''echo'', ''hello''] then Inr (echo_hello k) else Inl (OSError 2))"

text \<open>An operating system call interrupted from the keyboard while the child is being
  started.\<close>

definition interrupted_os :: spawner where
  "interrupted_os argv cwd out err = Inl KeyboardInterrupt"

text \<open>A host on which nothing becomes ready and nothing fails; the clock advances by a
  tenth of a second from one reading to the next.\<close>

definition quiet_host :: host where
  "quiet_host =
     \<lparr>now_at = (\<lambda>k. 100000 * int k),
      selector_error = None,
      register_error = (\<lambda>fd ev. None),
      select_at = (\<lambda>k. Inr []),
      close_error = None,
      error_message = (\<lambda>n. ''Bad file descriptor'')\<rparr>"

definition fresh_world :: world where
  "fresh_world = \<lparr>clock_reads = 0, fd_to_key = [], selects = 0, closed = False, logged = []\<rparr>"

section \<open>Properties of the registry\<close>

lemma already_registered_iff:
  "already_registered name items \<longleftrightarrow> name \<in> fst ` set items"
  by (induction items) auto

lemma dict_set_keys: "fst ` set (dict_set d k v) = insert k (fst ` set d)"
  by (induction d) (force split: if_splits)+

lemma dict_set_fresh: "k \<notin> fst ` set d \<Longrightarrow> dict_set d k v = d @ [(k, v)]"
  by (induction d) auto

lemma map_of_dict_set: "map_of (dict_set d k v) k = Some v"
  by (induction d) auto

lemma Register_success_registers:
  assumes "Register self name callback kw = (Inr p, self1)"
  shows "name \<in> fst ` set (callbacks self1)" and "command self1 = command self"
proof -
  from assms have "callbacks self1 = dict_set (callbacks self) name callback
      \<and> command self1 = command self"
    by (auto simp: Register_def Let_def split: if_splits sum.splits prod.splits)
  then show "name \<in> fst ` set (callbacks self1)" and "command self1 = command self"
    by (simp_all add: dict_set_keys)
qed

text \<open>A call of \<^verbatim>\<open>add_parser\<close> that raises has entered no sub-parser: the map from
  names to parser objects and the parser objects are what they were.\<close>

lemma add_parser_raises:
  assumes "add_parser sp name kw = (Inl e, sp1)"
  shows "name_parser_map sp1 = name_parser_map sp" and "parser_objects sp1 = parser_objects sp"
  using assms
  by (auto simp: add_parser_def Let_def split: if_splits sum.splits option.splits)

lemma parsers_add_parser_raises:
  assumes "parsers_add_parser ps name kw = (Inl e, ps1)"
  shows "map_option name_parser_map ps1 = map_option name_parser_map ps"
    and "map_option parser_objects ps1 = map_option parser_objects ps"
    and "has_sub_parser ps1 name = has_sub_parser ps name"
proof -
  have "map_option name_parser_map ps1 = map_option name_parser_map ps
      \<and> map_option parser_objects ps1 = map_option parser_objects ps"
  proof (cases ps)
    case None
    with assms show ?thesis by (simp add: parsers_add_parser_def)
  next
    case (Some sp)
    with assms obtain sp1 where "add_parser sp name kw = (Inl e, sp1)" and "ps1 = Some sp1"
      by (auto simp: parsers_add_parser_def split: prod.splits)
    with Some add_parser_raises [of sp name kw e sp1] show ?thesis by simp
  qed
  then show "map_option name_parser_map ps1 = map_option name_parser_map ps"
    and "map_option parser_objects ps1 = map_option parser_objects ps"
    by simp_all
  then show "has_sub_parser ps1 name = has_sub_parser ps name"
    by (cases ps; cases ps1) (simp_all add: has_sub_parser_def)
qed

text \<open>
  Claim C1. A call of \<open>Register\<close> whose name is the registry's primary command, or is
  already in the registry, raises an \<^verbatim>\<open>ExecutorError\<close> and leaves the registry (the
  name-to-handler mapping and the parser tree) exactly as it was. In particular, after a
  successful \<open>Register\<close> of a name, a second \<open>Register\<close> of that name, with any handler
  and options, fails and leaves the state reached by the first call.
\<close>

theorem Register_failure_leaves_registry_unchanged:
  "(name = command self \<or> name \<in> fst ` set (callbacks self) \<longrightarrow>
      (\<exists>msg. Register self name callback kw = (Inl (ExecutorError msg), self)))
   \<and> (\<forall>p self1. Register self name callback kw = (Inr p, self1) \<longrightarrow>
      (\<exists>msg. Register self1 name callback2 kw2 = (Inl (ExecutorError msg), self1)))"
proof (intro conjI impI allI)
  assume "name = command self \<or> name \<in> fst ` set (callbacks self)"
  then show "\<exists>msg. Register self name callback kw = (Inl (ExecutorError msg), self)"
    by (auto simp: Register_def already_registered_iff)
next
  fix p self1
  assume ok: "Register self name callback kw = (Inr p, self1)"
  then have "name \<in> fst ` set (callbacks self1)"
    by (rule Register_success_registers)
  then show "\<exists>msg. Register self1 name callback2 kw2 = (Inl (ExecutorError msg), self1)"
    by (auto simp: Register_def already_registered_iff)
qed

theorem Register_failure_leaves_registry_unchanged_witness:
  "(\<exists>msg. Register run_registry ''run'' (PyFunction 1) [] = (Inl (ExecutorError msg), run_registry))
   \<and> (\<exists>p self1. Register run_registry ''status'' (PyFunction 1) [] = (Inr p, self1)
        \<and> (\<exists>msg. Register self1 ''status'' (PyFunction 2) [] = (Inl (ExecutorError msg), self1)))"
proof -
  obtain p self1 where ok: "Register run_registry ''status'' (PyFunction 1) [] = (Inr p, self1)"
    by (simp add: Register_def run_registry_def parsers_add_parser_def add_parser_def
        dict_pop_def Let_def)
  have cmd: "''run'' = command run_registry"
    by (simp add: run_registry_def)
  from Register_failure_leaves_registry_unchanged
    [of "''run''" run_registry "PyFunction 1" "[]" "PyFunction 2" "[]"] cmd
  have a: "\<exists>msg. Register run_registry ''run'' (PyFunction 1) [] = (Inl (ExecutorError msg), run_registry)"
    by blast
  from Register_failure_leaves_registry_unchanged
    [of "''status''" run_registry "PyFunction 1" "[]" "PyFunction 2" "[]"] ok
  have b: "\<exists>msg. Register self1 ''status'' (PyFunction 2) [] = (Inl (ExecutorError msg), self1)"
    by blast
  from a b ok show ?thesis by blast
qed

text \<open>
  Claim C2. For every handler, callable or not, and every parser options, \<open>Register\<close>
  with the registry's primary command as the name raises an \<^verbatim>\<open>ExecutorError\<close>: the one
  for a handler that is not callable, otherwise the one for the reserved name.
\<close>

theorem Register_primary_command_rejected:
  "fst (Register self (command self) callback kw) =
     Inl (ExecutorError
            (if callable callback
             then ''Cannot register a secondary '' @ quoted (command self) @ '' command''
             else ''Callback is not callable''))"
  by (simp add: Register_def)

theorem Register_primary_command_rejected_witness:
  "fst (Register run_registry ''run'' (PyFunction 1) [(''help'', PyStr ''h'')]) =
     Inl (ExecutorError ''Cannot register a secondary 'run' command'')
   \<and> fst (Register run_registry ''run'' PyNone []) =
     Inl (ExecutorError ''Callback is not callable'')"
  using Register_primary_command_rejected [of run_registry "PyFunction 1" "[(''help'', PyStr ''h'')]"]
    Register_primary_command_rejected [of run_registry PyNone "[]"]
  by (simp add: run_registry_def quoted_def)

text \<open>
  Claim C10, as stated: whenever the three checks pass and the creation of the sub-parser
  raises, the handler is registered under the name although no sub-parser and no
  \<^verbatim>\<open>--config\<close> option exists for it. After \<open>Register\<close> of \<^verbatim>\<open>status\<close> with the alias
  \<^verbatim>\<open>st\<close>, a \<open>Register\<close> of \<^verbatim>\<open>st\<close> passes the three checks and \<^verbatim>\<open>add_parser\<close> raises
  (the name is taken); the handler is registered under \<^verbatim>\<open>st\<close>, and the tree does hold a
  sub-parser for \<^verbatim>\<open>st\<close>, the one of \<^verbatim>\<open>status\<close>, with its \<^verbatim>\<open>--config\<close> option.
\<close>

theorem Register_alias_conflict_keeps_handler_beside_sub_parser:
  "\<exists>p self1 self2 sp.
      Register run_registry ''status'' (PyFunction 1) [(''aliases'', PyStrList [''st''])]
        = (Inr p, self1)
    \<and> callable (PyFunction 2) \<and> ''st'' \<noteq> command self1
    \<and> ''st'' \<notin> fst ` set (callbacks self1)
    \<and> Register self1 ''st'' (PyFunction 2) []
        = (Inl (ArgumentError ''conflicting subparser: st''), self2)
    \<and> map_of (callbacks self2) ''st'' = Some (PyFunction 2)
    \<and> parsers self2 = Some sp
    \<and> has_sub_parser (parsers self2) ''st''
    \<and> map_of (name_parser_map sp) ''st'' = Some 0
    \<and> arguments (parser_objects sp ! 0) = [(''--config'', ''Path to the config file'')]"
  by (simp add: Register_def run_registry_def parsers_add_parser_def add_parser_def
      add_argument_def dict_pop_def has_sub_parser_def Let_def)

text \<open>
  Claim C10, amended. \<open>Register\<close> stores the handler under the name before it creates
  the sub-parser: when the three checks pass and \<^verbatim>\<open>add_parser\<close> raises, the exception
  leaves \<open>Register\<close>, the handler is registered under the name (appended to the mapping),
  and the call has entered no sub-parser: the tree's map from names to parser objects
  and the parser objects, with their options, are as before the call. So a sub-parser
  (and a \<^verbatim>\<open>--config\<close> option) exists for the name after the call only if the tree held
  one under that name before it. (The help entry of the refused sub-parser may have been
  recorded, as the second part of the witness shows.)
\<close>

theorem Register_keeps_handler_when_add_parser_raises:
  assumes "callable callback" and "name \<noteq> command self"
    and "name \<notin> fst ` set (callbacks self)"
    and "parsers_add_parser (parsers self) name kw = (Inl e, ps1)"
  shows "\<exists>self1. Register self name callback kw = (Inl e, self1)
           \<and> callbacks self1 = callbacks self @ [(name, callback)]
           \<and> map_of (callbacks self1) name = Some callback
           \<and> map_option name_parser_map (parsers self1) = map_option name_parser_map (parsers self)
           \<and> map_option parser_objects (parsers self1) = map_option parser_objects (parsers self)
           \<and> has_sub_parser (parsers self1) name = has_sub_parser (parsers self) name"
proof -
  let ?self1 = "self\<lparr>callbacks := dict_set (callbacks self) name callback, parsers := ps1\<rparr>"
  have "Register self name callback kw = (Inl e, ?self1)"
    using assms by (simp add: Register_def already_registered_iff Let_def)
  moreover have "callbacks ?self1 = callbacks self @ [(name, callback)]"
    using assms(3) by (simp add: dict_set_fresh)
  moreover have "map_of (callbacks ?self1) name = Some callback"
    by (simp add: map_of_dict_set)
  moreover have "map_option name_parser_map (parsers ?self1) = map_option name_parser_map (parsers self)"
    "map_option parser_objects (parsers ?self1) = map_option parser_objects (parsers self)"
    "has_sub_parser (parsers ?self1) name = has_sub_parser (parsers self) name"
    using parsers_add_parser_raises [OF assms(4)] by simp_all
  ultimately show ?thesis by blast
qed

theorem Register_keeps_handler_when_add_parser_raises_witness:
  "(\<exists>self1. Register (init ''run'') ''status'' (PyFunction 1) [] =
       (Inl (AttributeError ''NoneType object has no attribute add_parser''), self1)
     \<and> callbacks self1 = [(''status'', PyFunction 1)]
     \<and> map_of (callbacks self1) ''status'' = Some (PyFunction 1)
     \<and> \<not> has_sub_parser (parsers self1) ''status'')
   \<and> (\<exists>self1 sp. Register strict_registry ''status'' (PyFunction 1)
         [(''help'', PyStr ''show the status''), (''bogus'', PyInt 1)] =
       (Inl (TypeError ''unexpected keyword argument''), self1)
     \<and> map_of (callbacks self1) ''status'' = Some (PyFunction 1)
     \<and> parsers self1 = Some sp \<and> name_parser_map sp = [] \<and> parser_objects sp = []
     \<and> choices_actions sp = [(''status'', [], PyStr ''show the status'')]
     \<and> \<not> has_sub_parser (parsers self1) ''status'')"
proof -
  have a: "parsers_add_parser (parsers (init ''run'')) ''status'' [] =
      (Inl (AttributeError ''NoneType object has no attribute add_parser''), None)"
    by (simp add: init_def parsers_add_parser_def)
  have b: "parsers_add_parser (parsers strict_registry) ''status''
        [(''help'', PyStr ''show the status''), (''bogus'', PyInt 1)] =
      (Inl (TypeError ''unexpected keyword argument''),
       Some \<lparr>prog_prefix = ''tool'',
             choices_actions = [(''status'', [], PyStr ''show the status'')],
             name_parser_map = [], parser_objects = [],
             parser_class = parser_class (the (parsers strict_registry))\<rparr>)"
    by (simp add: strict_registry_def parsers_add_parser_def add_parser_def dict_pop_def Let_def)
  from Register_keeps_handler_when_add_parser_raises [OF _ _ _ a, of "PyFunction 1"]
  have 1: "\<exists>self1. Register (init ''run'') ''status'' (PyFunction 1) [] =
       (Inl (AttributeError ''NoneType object has no attribute add_parser''), self1)
     \<and> callbacks self1 = [(''status'', PyFunction 1)]
     \<and> map_of (callbacks self1) ''status'' = Some (PyFunction 1)
     \<and> \<not> has_sub_parser (parsers self1) ''status''"
    by (auto simp: init_def has_sub_parser_def)
  from Register_keeps_handler_when_add_parser_raises [OF _ _ _ b, of "PyFunction 1"]
  have 2: "\<exists>self1 sp. Register strict_registry ''status'' (PyFunction 1)
         [(''help'', PyStr ''show the status''), (''bogus'', PyInt 1)] =
       (Inl (TypeError ''unexpected keyword argument''), self1)
     \<and> map_of (callbacks self1) ''status'' = Some (PyFunction 1)
     \<and> parsers self1 = Some sp \<and> name_parser_map sp = [] \<and> parser_objects sp = []
     \<and> choices_actions sp = [(''status'', [], PyStr ''show the status'')]
     \<and> \<not> has_sub_parser (parsers self1) ''status''"
    apply (simp add: strict_registry_def has_sub_parser_def)
    apply (simp add: Register_def parsers_add_parser_def add_parser_def dict_pop_def Let_def)
    done
  from 1 2 show ?thesis by blast
qed

section \<open>Properties of the process runner\<close>

lemma strip_hello: "strip (''hello'' @ [CHR 0x0A]) = ''hello''"
  by (simp add: strip_def is_space_def)

text \<open>
  Claim C3. \<open>Command\<close> on \<^verbatim>\<open>["echo", "hello"]\<close> is claimed to return exit code 0 and
  the output \<^verbatim>\<open>["hello"]\<close>. The loop asks \<^verbatim>\<open>poll()\<close> before it reads: when the child
  has already exited at the first \<^verbatim>\<open>poll()\<close>, the loop is left at once and the line the
  child wrote is never read, so the result is exit code 0 with an empty output.
\<close>

theorem Command_echo_hello_child_exited_before_first_poll:
  "Command (echo_os 0) (Suc fuel) [''echo'', ''hello''] True None = Some (Inr (Some 0, []))"
  by (simp add: Command_def Popen_def stderr_argument_def echo_os_def echo_hello_def
      poll_def return_poll_def)

text \<open>When the first \<^verbatim>\<open>poll()\<close> still finds the child running, the line is read and
  the result is the claimed one.\<close>

lemma wait_loop_echo_hello:
  "wait_loop (Suc (k + n))
     \<lparr>returncode = None, status_probes = replicate k (Inr None) @ [Inr (Some 0)],
      stdout_reads = []\<rparr> output =
   Some (None,
     \<lparr>returncode = Some 0, status_probes = [], stdout_reads = []\<rparr>, output)"
  by (induction k) (simp_all add: poll_def)

lemma Command_echo_hello_child_running_at_first_poll:
  "Command (echo_os (Suc k)) (Suc (Suc (k + n))) [''echo'', ''hello''] True None =
     Some (Inr (Some 0, [''hello'']))"
proof -
  have "wait_loop (Suc (Suc (k + n))) (echo_hello (Suc k)) [] =
      Some (None, \<lparr>returncode = Some 0, status_probes = [], stdout_reads = []\<rparr>, [''hello''])"
    by (subst wait_loop.simps)
      (simp add: echo_hello_def poll_def strip_def is_space_def wait_loop_echo_hello
        del: wait_loop.simps)
  then show ?thesis
    by (simp add: Command_def Popen_def stderr_argument_def echo_os_def poll_def
        return_poll_def)
qed

text \<open>
  Claim C4. With \<^verbatim>\<open>stderr=False\<close> the child's error stream is claimed to be discarded
  and the call to complete normally. The function passes \<^verbatim>\<open>os.devnull\<close>, the path of
  the null device, where \<^verbatim>\<open>subprocess.DEVNULL\<close> is meant: \<^verbatim>\<open>Popen\<close> takes the string
  for a file object, and the \<^verbatim>\<open>AttributeError\<close> leaves \<open>Command\<close> before any child is
  started, for every command vector and working directory.
\<close>

theorem Command_stderr_False_raises_AttributeError:
  "Command os fuel argv False cwd =
     Some (Inl (AttributeError ''str object has no attribute fileno''))"
  by (simp add: Command_def Popen_def stderr_argument_def handle_def)

text \<open>With \<^verbatim>\<open>stderr=True\<close> the child is started with its output on the pipe and its
  error stream on the same pipe; the operating system is asked whenever the command
  vector is not empty and holds no zero byte.\<close>

lemma Popen_asks_os:
  assumes "argv \<noteq> []" and "CHR 0x00 \<notin> set (concat argv)"
    and "case cwd of None \<Rightarrow> True | Some d \<Rightarrow> CHR 0x00 \<notin> set d"
  shows "Popen os argv cwd PIPE STDOUT = os argv cwd PIPE STDOUT"
  using assms by (simp add: Popen_def split: option.splits)

lemma Command_stderr_True_merges:
  "Command os fuel argv True cwd =
     (case Popen os argv cwd PIPE STDOUT of
        Inl e \<Rightarrow> Some (handle e None [])
      | Inr p \<Rightarrow>
          (case wait_loop fuel p [] of
             None \<Rightarrow> None
           | Some (Some e, p1, output) \<Rightarrow> Some (handle e (Some p1) output)
           | Some (None, p1, output) \<Rightarrow> Some (return_poll (Some p1) output)))"
  by (simp add: Command_def stderr_argument_def)

text \<open>
  Claim C5. When the child cannot be started, that is when \<^verbatim>\<open>Popen\<close> raises an
  \<^verbatim>\<open>OSError\<close>, \<open>Command\<close> raises that same \<^verbatim>\<open>OSError\<close> to its caller: it returns no
  pair and no sentinel, for every command vector, working directory and bound on the
  loop.
\<close>

theorem Command_propagates_spawn_error:
  assumes "Popen os argv cwd PIPE (stderr_argument stderr) = Inl (OSError errno)"
  shows "Command os fuel argv stderr cwd = Some (Inl (OSError errno))"
  using assms by (simp add: Command_def handle_def)

theorem Command_propagates_spawn_error_witness:
  "Popen (echo_os 0) [''/nonexistent''] None PIPE (stderr_argument True) = Inl (OSError 2)
   \<and> Command (echo_os 0) 0 [''/nonexistent''] True None = Some (Inl (OSError 2))"
proof -
  have h: "Popen (echo_os 0) [''/nonexistent''] None PIPE (stderr_argument True) = Inl (OSError 2)"
    by (simp add: Popen_def stderr_argument_def echo_os_def)
  from h Command_propagates_spawn_error [OF h, of 0] show ?thesis by simp
qed

text \<open>
  Claim C6. An interruption at any point of the call is claimed to make \<open>Command\<close>
  return the partial outcome instead of raising. When the \<^verbatim>\<open>KeyboardInterrupt\<close> comes
  while \<^verbatim>\<open>Popen\<close> runs, \<^verbatim>\<open>process\<close> is still \<^verbatim>\<open>None\<close>; the handler passes, and the
  return statement's \<^verbatim>\<open>process.poll()\<close> raises an \<^verbatim>\<open>AttributeError\<close>.
\<close>

theorem Command_interrupted_while_spawning:
  "Command interrupted_os fuel [''echo'', ''hello''] True None =
     Some (Inl (AttributeError ''NoneType object has no attribute poll''))"
  by (simp add: Command_def Popen_def stderr_argument_def interrupted_os_def handle_def
      return_poll_def)

text \<open>An interruption inside the loop does give the partial outcome: the lines read so
  far and what \<^verbatim>\<open>poll()\<close> then reports.\<close>

lemma Command_interrupted_in_loop:
  assumes "Popen os argv cwd PIPE STDOUT = Inr p"
    and "wait_loop fuel p [] = Some (Some KeyboardInterrupt, p1, output)"
    and "poll p1 = (Inr rc, p2)"
  shows "Command os fuel argv True cwd = Some (Inr (rc, output))"
  using assms
  by (simp add: Command_def stderr_argument_def handle_def return_poll_def)

section \<open>Properties of the readiness waiter\<close>

lemma not_is_Exception_iff: "\<not> is_Exception e \<longleftrightarrow> e = KeyboardInterrupt"
  by (cases e) simp_all

lemma finally_clause_closed:
  assumes "finally_clause h logger w = (r, w')"
  shows "(r = None \<and> closed w') \<or> (r = Some KeyboardInterrupt \<and> closed w' = closed w)"
  using assms
  by (auto simp: finally_clause_def selector_close_def not_is_Exception_iff
      split: option.splits if_splits)

lemma finally_clause_frame:
  assumes "finally_clause h logger w = (r, w')"
  shows "selects w' = selects w" and "clock_reads w' = clock_reads w"
  using assms
  by (auto simp: finally_clause_def selector_close_def split: option.splits if_splits)

lemma finally_clause_not_interrupted:
  assumes "close_error h \<noteq> Some KeyboardInterrupt"
  shows "fst (finally_clause h logger w) = None"
  using assms
  by (auto simp: finally_clause_def selector_close_def not_is_Exception_iff
      split: option.splits)

lemma return_res_frame:
  assumes "return_res h logger start res w = (r, w')"
  shows "r = Inr res" and "closed w' = closed w" and "selects w' = selects w"
  using assms by (auto simp: return_res_def datetime_now_def split: if_splits)

lemma except_clauses_frame:
  assumes "except_clauses h logger e w = (l, w')"
  shows "selects w' = selects w" and "closed w' = closed w"
    and "l = Return None \<or> l = Raise e"
  using assms by (auto simp: except_clauses_def split: exn.splits if_splits)

lemma except_clauses_caught:
  assumes "e = KeyboardInterrupt \<or> (\<exists>n. e = OSError n)"
  shows "fst (except_clauses h logger e w) = Return None"
  using assms by (auto simp: except_clauses_def)

text \<open>Once the selector has been polled, \<^verbatim>\<open>res\<close> is a list, empty or not, and no
  longer \<^verbatim>\<open>None\<close>: a deadline reached after at least one poll gives a result that differs
  from the failure sentinel.\<close>

lemma select_loop_polled:
  "select_loop fuel h deadline (Some r) w = Some (Inr res, w') \<Longrightarrow> res \<noteq> None"
proof (induction fuel arbitrary: r w)
  case 0
  then show ?case
    by (auto simp: datetime_now_def split: if_splits)
next
  case (Suc fuel)
  then show ?case
    by (auto simp: datetime_now_def selector_select_def split: if_splits sum.splits)
qed

lemma select_loop_before_deadline:
  assumes "now_at h (clock_reads w) < deadline"
    and "select_loop fuel h deadline None w = Some (Inr res, w')"
  shows "res \<noteq> None"
proof (cases fuel)
  case 0
  with assms show ?thesis by (simp add: datetime_now_def)
next
  case (Suc n)
  with assms show ?thesis
    by (auto simp: datetime_now_def selector_select_def
        split: if_splits sum.splits dest: select_loop_polled)
qed

text \<open>A first reading of the clock that is not before the deadline leaves the loop with
  \<^verbatim>\<open>res\<close> untouched and the selector never polled.\<close>

lemma select_loop_after_deadline:
  assumes "deadline \<le> now_at h (clock_reads w)"
  shows "select_loop fuel h deadline res w = Some (Inr res, w\<lparr>clock_reads := Suc (clock_reads w)\<rparr>)"
  using assms by (cases fuel) (simp_all add: datetime_now_def)

text \<open>
  Claim C7. When the deadline is reached without an error and without an interruption,
  \<open>Select\<close> is claimed to return a readiness result, possibly empty, that differs from
  the failure sentinel \<^verbatim>\<open>None\<close>. With a timeout of zero, on a host where nothing fails
  and nothing interrupts, the loop is never entered, \<^verbatim>\<open>res\<close> keeps its initial value and
  \<open>Select\<close> returns \<^verbatim>\<open>None\<close>.
\<close>

theorem Select_zero_timeout_returns_None:
  "Select quiet_host fuel (Many [Fd 3]) (Many []) 0 False fresh_world =
     Some (Inr None,
       \<lparr>clock_reads = 2, fd_to_key = [], selects = 0, closed = True, logged = []\<rparr>)"
  by (simp add: Select_def try_statement_def try_body_def datetime_now_def no_selector_def
      timedelta_def datetime_add_def DefaultSelector_def
      selector_register_def select_loop_after_deadline finally_clause_def
      selector_close_def return_res_def quiet_host_def fresh_world_def)

text \<open>With a quarter of a second the same call polls twice and returns the empty list.\<close>

lemma Select_deadline_reached_returns_empty_list:
  "Select quiet_host (Suc (Suc fuel)) (Many [Fd 3]) (Many []) 250000 False fresh_world =
     Some (Inr (Some []),
       \<lparr>clock_reads = 4, fd_to_key = [], selects = 2, closed = True, logged = []\<rparr>)"
  by (simp add: Select_def try_statement_def try_body_def datetime_now_def no_selector_def
      timedelta_def datetime_add_def DefaultSelector_def
      selector_register_def selector_select_def select_loop_after_deadline
      finally_clause_def selector_close_def return_res_def quiet_host_def fresh_world_def)

text \<open>The \<^verbatim>\<open>finally\<close> clause closes the selector however the \<^verbatim>\<open>try\<close> statement is
  left, unless the close itself is interrupted.\<close>

lemma try_statement_closes_selector:
  assumes "try_statement h fuel rds wrts start deadline logger w = Some (outcome, w')"
    and "outcome \<noteq> Inl KeyboardInterrupt"
  shows "closed w'"
proof -
  from assms(1) obtain r w2 where
    body: "try_body fuel h rds wrts deadline w = Some (r, w2)"
    by (auto simp: try_statement_def split: option.splits)
  obtain leaving w3 where
    exc: "(case r of Inl e \<Rightarrow> except_clauses h logger e w2
           | Inr res \<Rightarrow> (Completed res, w2)) = (leaving, w3)"
    by (cases "case r of Inl e \<Rightarrow> except_clauses h logger e w2
           | Inr res \<Rightarrow> (Completed res, w2)")
  obtain c w4 where fin: "finally_clause h logger w3 = (c, w4)"
    by (cases "finally_clause h logger w3")
  from assms(1) body exc fin have sel:
    "(case c of
        Some e \<Rightarrow> Some (Inl e, w4)
      | None \<Rightarrow>
          (case leaving of
             Return v \<Rightarrow> Some (Inr v, w4)
           | Raise e \<Rightarrow> Some (Inl e, w4)
           | Completed res \<Rightarrow> Some (return_res h logger start res w4))) = Some (outcome, w')"
    by (simp add: try_statement_def)
  from finally_clause_closed [OF fin] show ?thesis
  proof
    assume "c = None \<and> closed w4"
    with sel show ?thesis
      by (cases leaving) (auto dest: return_res_frame(2))
  next
    assume "c = Some KeyboardInterrupt \<and> closed w4 = closed w3"
    with sel assms(2) show ?thesis by simp
  qed
qed

text \<open>
  Claim C8. On every path on which \<open>Select\<close> returns (with a readiness result, at the
  deadline, with \<^verbatim>\<open>None\<close> after an operating system error, with \<^verbatim>\<open>None\<close> after an
  interruption) the selector is closed when the call returns; so it is when an exception
  of registration that no handler takes leaves the call. Only an interruption of
  \<^verbatim>\<open>selector.close()\<close> itself, which leaves \<open>Select\<close> as a \<^verbatim>\<open>KeyboardInterrupt\<close>, is
  excluded. (A call that raises before the \<^verbatim>\<open>try\<close> statement has made no selector and
  so leaves none open.)
\<close>

theorem Select_closes_selector:
  assumes "Select h fuel rds wrts timeout logger w = Some (outcome, w')"
    and "outcome \<noteq> Inl KeyboardInterrupt"
  shows "closed w'"
proof -
  let ?w1 = "(no_selector w)\<lparr>clock_reads := Suc (clock_reads w)\<rparr>"
  have w1: "closed ?w1"
    by (simp add: no_selector_def)
  have now: "datetime_now h (no_selector w) = (now_at h (clock_reads w), ?w1)"
    by (simp add: datetime_now_def no_selector_def)
  show ?thesis
  proof (cases "Select h fuel rds wrts timeout logger w = Some (outcome, ?w1)")
    case True
    with assms(1) w1 show ?thesis by simp
  next
    case False
    with assms(1) now obtain start deadline w2 where
      "try_statement h fuel (as_list rds) (as_list wrts) start deadline logger w2
         = Some (outcome, w')"
      by (auto simp: Select_def split: sum.splits)
    from try_statement_closes_selector [OF this assms(2)] show ?thesis .
  qed
qed

theorem Select_closes_selector_witness:
  "(\<exists>w'. Select (quiet_host\<lparr>select_at := (\<lambda>k. Inr [(5, EVENT_READ)])\<rparr>) 1
            (Single (Fd 5)) (Single (Fd 6)) 1000000 False fresh_world
          = Some (Inr (Some [(5, EVENT_READ)]), w') \<and> closed w')
   \<and> (\<exists>w'. Select quiet_host 2 (Single (Fd 5)) (Single (Fd 6)) 250000 False fresh_world
          = Some (Inr (Some []), w') \<and> closed w')
   \<and> (\<exists>w'. Select (quiet_host\<lparr>select_at := (\<lambda>k. Inl (OSError 9))\<rparr>) 1
            (Single (Fd 5)) (Single (Fd 6)) 1000000 False fresh_world
          = Some (Inr None, w') \<and> closed w')
   \<and> (\<exists>w'. Select (quiet_host\<lparr>select_at := (\<lambda>k. Inl KeyboardInterrupt)\<rparr>) 1
            (Single (Fd 5)) (Single (Fd 6)) 1000000 False fresh_world
          = Some (Inr None, w') \<and> closed w')"
proof -
  note defs = Select_def try_statement_def try_body_def datetime_now_def no_selector_def
    timedelta_def datetime_add_def DefaultSelector_def
    selector_register_def selector_select_def finally_clause_def selector_close_def
    return_res_def except_clauses_def quiet_host_def fresh_world_def
  obtain w1 where 1: "Select (quiet_host\<lparr>select_at := (\<lambda>k. Inr [(5, EVENT_READ)])\<rparr>) 1
      (Single (Fd 5)) (Single (Fd 6)) 1000000 False fresh_world
        = Some (Inr (Some [(5, EVENT_READ)]), w1)"
    by (simp add: defs)
  obtain w2 where 2: "Select quiet_host 2 (Single (Fd 5)) (Single (Fd 6)) 250000 False fresh_world
      = Some (Inr (Some []), w2)"
    by (simp add: defs numeral_2_eq_2)
  obtain w3 where 3: "Select (quiet_host\<lparr>select_at := (\<lambda>k. Inl (OSError 9))\<rparr>) 1
      (Single (Fd 5)) (Single (Fd 6)) 1000000 False fresh_world = Some (Inr None, w3)"
    by (simp add: defs)
  obtain w4 where 4: "Select (quiet_host\<lparr>select_at := (\<lambda>k. Inl KeyboardInterrupt)\<rparr>) 1
      (Single (Fd 5)) (Single (Fd 6)) 1000000 False fresh_world = Some (Inr None, w4)"
    by (simp add: defs)
  have "closed w1" by (rule Select_closes_selector [OF 1]) simp
  moreover have "closed w2" by (rule Select_closes_selector [OF 2]) simp
  moreover have "closed w3" by (rule Select_closes_selector [OF 3]) simp
  moreover have "closed w4" by (rule Select_closes_selector [OF 4]) simp
  ultimately show ?thesis using 1 2 3 4 by blast
qed

text \<open>Registration neither polls the selector nor reads the clock.\<close>

lemma selector_register_frame:
  assumes "selector_register h w fileobj ev = (r, w')"
  shows "selects w' = selects w" and "clock_reads w' = clock_reads w"
  using assms
  by (auto simp: selector_register_def split: if_splits option.splits sum.splits)

lemma register_all_frame:
  "register_all h ev fileobjs w = (r, w') \<Longrightarrow>
     selects w' = selects w \<and> clock_reads w' = clock_reads w"
proof (induction fileobjs arbitrary: w)
  case Nil
  then show ?case by simp
next
  case (Cons fileobj fileobjs)
  obtain r1 w1 where step: "selector_register h w fileobj ev = (r1, w1)"
    by (cases "selector_register h w fileobj ev")
  show ?case
  proof (cases r1)
    case None
    with Cons.prems step have "register_all h ev fileobjs w1 = (r, w')" by simp
    from Cons.IH [OF this] selector_register_frame [OF step] show ?thesis by simp
  next
    case (Some e)
    with Cons.prems step have "w' = w1" by simp
    with selector_register_frame [OF step] show ?thesis by simp
  qed
qed

text \<open>\<open>Select\<close> returns, or raises, as soon as the clock reaches the deadline within the
  polls allowed: the bound on the loop only cuts off runs on which the clock stands
  still.\<close>

lemma select_loop_returns:
  assumes "deadline \<le> now_at h (clock_reads w + k)" and "k \<le> fuel"
  shows "\<exists>out w'. select_loop fuel h deadline res w = Some (out, w')"
  using assms
proof (induction fuel arbitrary: k w res)
  case 0
  then show ?case by (simp add: datetime_now_def)
next
  case (Suc fuel)
  show ?case
  proof (cases "now_at h (clock_reads w) < deadline")
    case False
    then show ?thesis by (simp add: datetime_now_def)
  next
    case True
    with Suc.prems(1) obtain j where k: "k = Suc j"
      by (cases k) auto
    let ?w2 = "w\<lparr>clock_reads := Suc (clock_reads w), selects := Suc (selects w)\<rparr>"
    from Suc.prems k have "deadline \<le> now_at h (clock_reads ?w2 + j)" "j \<le> fuel"
      by simp_all
    from Suc.IH [OF this]
    have "\<exists>out w'. select_loop fuel h deadline (Some []) ?w2 = Some (out, w')" .
    with True show ?thesis
      by (auto simp: datetime_now_def selector_select_def split: sum.splits)
  qed
qed

lemma try_statement_returns:
  assumes "deadline \<le> now_at h (clock_reads w + k)" and "k \<le> fuel"
  shows "\<exists>out w'. try_statement h fuel rds wrts start deadline logger w = Some (out, w')"
proof -
  have "\<exists>r w3. try_body fuel h rds wrts deadline w = Some (r, w3)"
  proof -
    obtain r1 w3 where reg1: "register_all h EVENT_READ rds w = (r1, w3)"
      by (cases "register_all h EVENT_READ rds w")
    obtain r2 w4 where reg2: "register_all h EVENT_WRITE wrts w3 = (r2, w4)"
      by (cases "register_all h EVENT_WRITE wrts w3")
    from register_all_frame [OF reg1] register_all_frame [OF reg2]
    have "clock_reads w4 = clock_reads w" by simp
    with assms(1) have "deadline \<le> now_at h (clock_reads w4 + k)" by simp
    from select_loop_returns [OF this assms(2), of None] reg1 reg2 show ?thesis
      by (cases r1; cases r2) (auto simp: try_body_def)
  qed
  then obtain r w3 where "try_body fuel h rds wrts deadline w = Some (r, w3)"
    by blast
  then show ?thesis
    by (auto simp: try_statement_def split: prod.splits option.splits pending.splits)
qed

lemma Select_returns:
  assumes "now_at h (clock_reads w) + timeout \<le> now_at h (Suc (clock_reads w) + k)"
    and "k \<le> fuel"
  shows "\<exists>out w'. Select h fuel rds wrts timeout logger w = Some (out, w')"
proof -
  have "\<exists>out w'. try_statement h fuel (as_list rds) (as_list wrts) (now_at h (clock_reads w))
      (now_at h (clock_reads w) + timeout) logger w2 = Some (out, w')"
    if "clock_reads w2 = Suc (clock_reads w)" for w2
    using try_statement_returns [of _ h w2 k fuel] assms that by simp
  then show ?thesis
    by (auto simp: Select_def datetime_now_def no_selector_def timedelta_def datetime_add_def
        DefaultSelector_def split: sum.splits option.splits if_splits)
qed

text \<open>When the deadline has passed at the first reading of the clock inside the
  \<^verbatim>\<open>try\<close> statement, the statement never polls and ends with \<^verbatim>\<open>None\<close> or with an
  exception, whatever was registered.\<close>

lemma try_statement_deadline_passed:
  assumes "deadline \<le> now_at h (clock_reads w)" and "selects w = 0"
  shows "\<exists>out w'. try_statement h fuel rds wrts start deadline logger w = Some (out, w')
           \<and> selects w' = 0 \<and> (out = Inr None \<or> (\<exists>e. out = Inl e))"
proof -
  obtain r1 w3 where reg1: "register_all h EVENT_READ rds w = (r1, w3)"
    by (cases "register_all h EVENT_READ rds w")
  obtain r2 w4 where reg2: "register_all h EVENT_WRITE wrts w3 = (r2, w4)"
    by (cases "register_all h EVENT_WRITE wrts w3")
  from register_all_frame [OF reg1] register_all_frame [OF reg2] assms
  have fr: "selects w3 = 0" "selects w4 = 0" "deadline \<le> now_at h (clock_reads w4)"
    by simp_all
  from select_loop_after_deadline [OF fr(3), of fuel None] reg1 reg2
  obtain r w5 where body: "try_body fuel h rds wrts deadline w = Some (r, w5)"
    and r: "r = Inr None \<or> (\<exists>e. r = Inl e)" and w5: "selects w5 = 0"
    using fr by (cases r1; cases r2) (auto simp: try_body_def)
  obtain leaving w6 where
    exc: "(case r of Inl e \<Rightarrow> except_clauses h logger e w5
           | Inr res \<Rightarrow> (Completed res, w5)) = (leaving, w6)"
    by (cases "case r of Inl e \<Rightarrow> except_clauses h logger e w5
           | Inr res \<Rightarrow> (Completed res, w5)")
  have l: "leaving = Return None \<or> leaving = Completed None \<or> (\<exists>e. leaving = Raise e)"
    and w6: "selects w6 = 0"
  proof -
    from r show "leaving = Return None \<or> leaving = Completed None \<or> (\<exists>e. leaving = Raise e)"
    proof
      assume "r = Inr None"
      with exc show ?thesis by simp
    next
      assume "\<exists>e. r = Inl e"
      then obtain e where "r = Inl e" ..
      with exc except_clauses_frame(3) [of h logger e w5 leaving w6] show ?thesis by auto
    qed
    from r show "selects w6 = 0"
    proof
      assume "r = Inr None"
      with exc w5 show ?thesis by simp
    next
      assume "\<exists>e. r = Inl e"
      then obtain e where "r = Inl e" ..
      with exc except_clauses_frame(1) [of h logger e w5 leaving w6] w5 show ?thesis by simp
    qed
  qed
  obtain c w7 where fin: "finally_clause h logger w6 = (c, w7)"
    by (cases "finally_clause h logger w6")
  from finally_clause_frame(1) [OF fin] w6 have w7: "selects w7 = 0" by simp
  obtain rr w8 where ret: "return_res h logger start None w7 = (rr, w8)"
    by (cases "return_res h logger start None w7")
  from return_res_frame [OF ret] w7 have w8: "rr = Inr None" "selects w8 = 0" by simp_all
  from body exc fin ret l w7 w8 show ?thesis
    by (cases c) (auto simp: try_statement_def)
qed

text \<open>
  Claim C9, as stated: for every reader set and writer set, \<open>Select\<close> with a timeout of
  zero or less returns \<^verbatim>\<open>None\<close>. It does not when one descriptor is given as reader and
  as writer: the second registration raises \<^verbatim>\<open>KeyError\<close>, which no handler of \<open>Select\<close>
  takes, and the call raises instead of returning.
\<close>

theorem Select_nonpositive_timeout_duplicate_descriptor:
  "Select quiet_host 0 (Single (Fd 5)) (Single (Fd 5)) 0 False fresh_world =
     Some (Inl (KeyError ''already registered''),
       \<lparr>clock_reads = 1, fd_to_key = [], selects = 0, closed = True, logged = []\<rparr>)
   \<and> (\<nexists>w'. Select quiet_host 0 (Single (Fd 5)) (Single (Fd 5)) 0 False fresh_world =
         Some (Inr None, w'))"
  by (simp add: Select_def try_statement_def try_body_def datetime_now_def no_selector_def
      timedelta_def datetime_add_def DefaultSelector_def
      selector_register_def finally_clause_def selector_close_def except_clauses_def
      quiet_host_def fresh_world_def)

text \<open>
  Claim C9, amended. For every reader set and writer set, \<open>Select\<close> with a timeout of
  zero or less, on a clock that does not run backwards between the start and the first
  test of the deadline, never polls the selector and never returns a readiness list: the
  call ends, whatever the bound on the loop, either with an exception that \<open>Select\<close> does
  not catch or with \<^verbatim>\<open>None\<close>, the sentinel of failure and interruption.
\<close>

theorem Select_nonpositive_timeout_None_or_raises:
  assumes "timeout \<le> 0"
    and "now_at h (clock_reads w) \<le> now_at h (Suc (clock_reads w))"
  shows "\<exists>out w'. Select h fuel rds wrts timeout logger w = Some (out, w')
           \<and> selects w' = 0 \<and> (out = Inr None \<or> (\<exists>e. out = Inl e))"
proof -
  let ?start = "now_at h (clock_reads w)"
  let ?w1 = "(no_selector w)\<lparr>clock_reads := Suc (clock_reads w)\<rparr>"
  have now: "datetime_now h (no_selector w) = (?start, ?w1)"
    by (simp add: datetime_now_def no_selector_def)
  have w1: "selects ?w1 = 0"
    by (simp add: no_selector_def)
  show ?thesis
  proof (cases "timedelta timeout")
    case (Inl e)
    with now w1 show ?thesis by (simp add: Select_def)
  next
    case delta: (Inr delta)
    then have delta_eq: "delta = timeout"
      by (simp add: timedelta_def split: if_splits)
    show ?thesis
    proof (cases "datetime_add ?start delta")
      case (Inl e)
      with now delta w1 show ?thesis by (simp add: Select_def)
    next
      case deadline: (Inr deadline)
      with delta_eq have "deadline = ?start + timeout"
        by (simp add: datetime_add_def split: if_splits)
      with assms have late: "deadline \<le> now_at h (Suc (clock_reads w))" by simp
      show ?thesis
      proof (cases "DefaultSelector h ?w1")
        case (Inl e)
        with now delta deadline w1 show ?thesis by (simp add: Select_def)
      next
        case (Inr w2)
        then have "selects w2 = 0" "clock_reads w2 = Suc (clock_reads w)"
          by (auto simp: DefaultSelector_def no_selector_def split: option.splits)
        with late have "deadline \<le> now_at h (clock_reads w2)" "selects w2 = 0"
          by simp_all
        from try_statement_deadline_passed [OF this]
        show ?thesis using now delta deadline Inr by (simp add: Select_def)
      qed
    qed
  qed
qed

theorem Select_nonpositive_timeout_None_or_raises_witness:
  "(\<exists>w'. Select quiet_host 0 (Many [Fd 3, File 4]) (Single (Fd 5)) 0 True fresh_world
          = Some (Inr None, w') \<and> selects w' = 0)
   \<and> (\<exists>w'. Select quiet_host 7 (Single NoFileno) (Many []) (- 1000000) False fresh_world
          = Some (Inl (ValueError ''Invalid file object''), w') \<and> selects w' = 0)"
proof -
  note defs = Select_def try_statement_def try_body_def datetime_now_def no_selector_def
    timedelta_def datetime_add_def DefaultSelector_def
    selector_register_def finally_clause_def selector_close_def
    return_res_def except_clauses_def select_loop_after_deadline quiet_host_def fresh_world_def
  have clock: "now_at quiet_host (clock_reads fresh_world)
      \<le> now_at quiet_host (Suc (clock_reads fresh_world))"
    by (simp add: quiet_host_def fresh_world_def)
  from Select_nonpositive_timeout_None_or_raises [OF _ clock, of 0 0 "Many [Fd 3, File 4]"
      "Single (Fd 5)" True]
  obtain out1 w1 where 1: "Select quiet_host 0 (Many [Fd 3, File 4]) (Single (Fd 5)) 0 True
      fresh_world = Some (out1, w1)" "selects w1 = 0"
    by auto
  from Select_nonpositive_timeout_None_or_raises [OF _ clock, of "- 1000000" 7 "Single NoFileno"
      "Many []" False]
  obtain out2 w2 where 2: "Select quiet_host 7 (Single NoFileno) (Many []) (- 1000000) False
      fresh_world = Some (out2, w2)" "selects w2 = 0"
    by auto
  have "out1 = Inr None" using 1(1) by (simp add: defs)
  moreover have "out2 = Inl (ValueError ''Invalid file object'')" using 2(1) by (simp add: defs)
  ultimately show ?thesis using 1 2 by blast
qed

text \<open>It is \<^verbatim>\<open>None\<close> that is returned when nothing raises an exception that \<open>Select\<close>
  does not catch: the deadline can be computed, the selector is made, every object
  listed has a descriptor that fits a C \<^verbatim>\<open>int\<close> and is listed once, the operating
  system fails a registration only with an error of its own or an interruption, and
  \<^verbatim>\<open>selector.close()\<close> is not interrupted.\<close>

lemma register_all_outcome:
  assumes "\<forall>x \<in> set fileobjs. \<exists>fd. fileobj_to_fd x = Inr fd \<and> fd \<le> 2147483647"
    and "distinct (map fileobj_to_fd fileobjs)"
    and "\<forall>x \<in> set fileobjs. \<forall>fd. fileobj_to_fd x = Inr fd \<longrightarrow> fd \<notin> fst ` set (fd_to_key w)"
    and "\<forall>fd ev e. register_error h fd ev = Some e \<longrightarrow>
           e = KeyboardInterrupt \<or> (\<exists>n. e = OSError n)"
    and "register_all h ev fileobjs w = (r, w')"
  shows "case r of
           Some e \<Rightarrow> e = KeyboardInterrupt \<or> (\<exists>n. e = OSError n)
         | None \<Rightarrow> fst ` set (fd_to_key w') =
             fst ` set (fd_to_key w) \<union> {fd. \<exists>x \<in> set fileobjs. fileobj_to_fd x = Inr fd}"
  using assms
proof (induction fileobjs arbitrary: w)
  case Nil
  then show ?case by simp
next
  case (Cons x xs)
  from Cons.prems(1) obtain fd where fd: "fileobj_to_fd x = Inr fd" "fd \<le> 2147483647"
    by auto
  with Cons.prems(3) have new: "fd \<notin> fst ` set (fd_to_key w)"
    by simp
  show ?case
  proof (cases "register_error h fd ev")
    case (Some e)
    with fd new Cons.prems(5) have "r = Some e"
      by (simp add: selector_register_def)
    with Some Cons.prems(4) show ?thesis by auto
  next
    case None
    let ?w1 = "w\<lparr>fd_to_key := fd_to_key w @ [(fd, ev)]\<rparr>"
    from None fd new Cons.prems(5) have rest: "register_all h ev xs ?w1 = (r, w')"
      by (simp add: selector_register_def)
    from Cons.prems(2) fd have "Inr fd \<notin> fileobj_to_fd ` set xs"
      by simp
    then have "\<forall>y \<in> set xs. fileobj_to_fd y \<noteq> Inr fd"
      by (metis imageI)
    with Cons.prems(3) have disj:
      "\<forall>y \<in> set xs. \<forall>fd'. fileobj_to_fd y = Inr fd' \<longrightarrow> fd' \<notin> fst ` set (fd_to_key ?w1)"
      by auto
    from Cons.prems(1,2) have "\<forall>y \<in> set xs. \<exists>fd. fileobj_to_fd y = Inr fd \<and> fd \<le> 2147483647"
      "distinct (map fileobj_to_fd xs)"
      by simp_all
    from Cons.IH [OF this disj Cons.prems(4) rest] fd show ?thesis
      by (cases r) auto
  qed
qed

lemma try_body_caught:
  assumes "\<forall>x \<in> set (rds @ wrts). \<exists>fd. fileobj_to_fd x = Inr fd \<and> fd \<le> 2147483647"
    and "distinct (map fileobj_to_fd (rds @ wrts))"
    and "fd_to_key w = []"
    and "\<forall>fd ev e. register_error h fd ev = Some e \<longrightarrow>
           e = KeyboardInterrupt \<or> (\<exists>n. e = OSError n)"
    and "deadline \<le> now_at h (clock_reads w)"
    and "try_body fuel h rds wrts deadline w = Some (Inl e, w')"
  shows "e = KeyboardInterrupt \<or> (\<exists>n. e = OSError n)"
proof -
  obtain r1 w3 where reg1: "register_all h EVENT_READ rds w = (r1, w3)"
    by (cases "register_all h EVENT_READ rds w")
  have out1: "case r1 of
           Some e \<Rightarrow> e = KeyboardInterrupt \<or> (\<exists>n. e = OSError n)
         | None \<Rightarrow> fst ` set (fd_to_key w3) =
             fst ` set (fd_to_key w) \<union> {fd. \<exists>x \<in> set rds. fileobj_to_fd x = Inr fd}"
    by (rule register_all_outcome [OF _ _ _ assms(4) reg1]) (use assms(1,2,3) in auto)
  show ?thesis
  proof (cases r1)
    case (Some e1)
    with reg1 assms(6) out1 show ?thesis by (simp add: try_body_def)
  next
    case None
    obtain r2 w4 where reg2: "register_all h EVENT_WRITE wrts w3 = (r2, w4)"
      by (cases "register_all h EVENT_WRITE wrts w3")
    from None out1 assms(3)
    have keys: "fst ` set (fd_to_key w3) = {fd. \<exists>x \<in> set rds. fileobj_to_fd x = Inr fd}"
      by simp
    have disj: "\<forall>x \<in> set wrts. \<forall>fd. fileobj_to_fd x = Inr fd \<longrightarrow> fd \<notin> fst ` set (fd_to_key w3)"
    proof (intro ballI allI impI)
      fix x fd
      assume x: "x \<in> set wrts" and fd: "fileobj_to_fd x = Inr fd"
      from assms(2) have "fileobj_to_fd ` set rds \<inter> fileobj_to_fd ` set wrts = {}"
        by simp
      with x fd have "\<forall>y \<in> set rds. fileobj_to_fd y \<noteq> Inr fd"
        by (metis disjoint_iff imageI)
      with keys show "fd \<notin> fst ` set (fd_to_key w3)" by simp
    qed
    have out2: "case r2 of
           Some e \<Rightarrow> e = KeyboardInterrupt \<or> (\<exists>n. e = OSError n)
         | None \<Rightarrow> fst ` set (fd_to_key w4) =
             fst ` set (fd_to_key w3) \<union> {fd. \<exists>x \<in> set wrts. fileobj_to_fd x = Inr fd}"
      by (rule register_all_outcome [OF _ _ disj assms(4) reg2]) (use assms(1,2) in auto)
    from register_all_frame [OF reg1] register_all_frame [OF reg2] assms(5)
    have "deadline \<le> now_at h (clock_reads w4)" by simp
    from select_loop_after_deadline [OF this, of fuel None] None reg1 reg2 assms(6) out2
    show ?thesis
      by (cases r2) (auto simp: try_body_def)
  qed
qed

lemma Select_nonpositive_timeout_returns_None:
  assumes "timeout \<le> 0"
    and "now_at h (clock_reads w) \<le> now_at h (Suc (clock_reads w))"
    and "- 86399999913600000000 \<le> timeout"
    and "- 62135596800000000 \<le> now_at h (clock_reads w) + timeout"
    and "now_at h (clock_reads w) + timeout \<le> 253402300799999999"
    and "selector_error h = None"
    and "\<forall>x \<in> set (as_list rds @ as_list wrts). \<exists>fd. fileobj_to_fd x = Inr fd \<and> fd \<le> 2147483647"
    and "distinct (map fileobj_to_fd (as_list rds @ as_list wrts))"
    and "\<forall>fd ev e. register_error h fd ev = Some e \<longrightarrow>
           e = KeyboardInterrupt \<or> (\<exists>n. e = OSError n)"
    and "close_error h \<noteq> Some KeyboardInterrupt"
  shows "\<exists>w'. Select h fuel rds wrts timeout logger w = Some (Inr None, w') \<and> selects w' = 0"
proof -
  let ?start = "now_at h (clock_reads w)"
  let ?w1 = "(no_selector w)\<lparr>clock_reads := Suc (clock_reads w)\<rparr>"
  let ?w2 = "?w1\<lparr>fd_to_key := [], selects := 0, closed := False\<rparr>"
  have sel: "Select h fuel rds wrts timeout logger w =
      try_statement h fuel (as_list rds) (as_list wrts) ?start (?start + timeout) logger ?w2"
    using assms(1,3,4,5,6)
    by (simp add: Select_def datetime_now_def no_selector_def timedelta_def datetime_add_def
        DefaultSelector_def)
  have late: "?start + timeout \<le> now_at h (clock_reads ?w2)"
    using assms(1,2) by (simp add: no_selector_def)
  from try_statement_deadline_passed [OF late, of fuel "as_list rds" "as_list wrts" ?start logger]
  obtain out w' where res: "try_statement h fuel (as_list rds) (as_list wrts) ?start
      (?start + timeout) logger ?w2 = Some (out, w')" "selects w' = 0"
    "out = Inr None \<or> (\<exists>e. out = Inl e)"
    by auto
  have "out = Inr None"
  proof (rule ccontr)
    assume "out \<noteq> Inr None"
    with res(3) obtain e where out: "out = Inl e" by blast
    from res(1) out obtain r w3 where
      body: "try_body fuel h (as_list rds) (as_list wrts) (?start + timeout) ?w2 = Some (r, w3)"
      by (auto simp: try_statement_def split: option.splits)
    obtain leaving w4 where
      exc: "(case r of Inl e \<Rightarrow> except_clauses h logger e w3
             | Inr res \<Rightarrow> (Completed res, w3)) = (leaving, w4)"
      by (cases "case r of Inl e \<Rightarrow> except_clauses h logger e w3
             | Inr res \<Rightarrow> (Completed res, w3)")
    obtain c w5 where fin: "finally_clause h logger w4 = (c, w5)"
      by (cases "finally_clause h logger w4")
    with finally_clause_not_interrupted [OF assms(10), of logger w4] have c: "c = None"
      by simp
    have "\<nexists>e'. leaving = Raise e'"
    proof (cases r)
      case (Inl e1)
      with body have "e1 = KeyboardInterrupt \<or> (\<exists>n. e1 = OSError n)"
        using try_body_caught [OF assms(7,8) _ assms(9) late, of fuel e1 w3] by simp
      from except_clauses_caught [OF this, of h logger w3] exc Inl show ?thesis by simp
    next
      case (Inr res)
      with exc show ?thesis by auto
    qed
    with res(1) out body exc fin c show False
      by (cases leaving) (auto simp: try_statement_def return_res_def split: if_splits prod.splits)
  qed
  with res sel show ?thesis by simp
qed

end
